theory Spec2Isabelle
  imports Main
begin

section \<open>Data model of \<^verbatim>\<open>sktime/datatypes/_utilities.py\<close>\<close>

text \<open>
  The utilities dispatch on the Python type of a time series container and read a handful
  of attributes of it: \<^verbatim>\<open>len\<close>, \<^verbatim>\<open>index\<close>, \<^verbatim>\<open>shape\<close>,
  \<^verbatim>\<open>ndim\<close>, \<^verbatim>\<open>columns\<close>, \<^verbatim>\<open>dtypes\<close>. The model keeps exactly
  these. Index labels are the integers of an integer index, as values of \<^typ>\<open>int\<close>;
  where the source computes with them as 64-bit numpy integers the wrap-around is
  written out.
  Every exception of the source is a value \<open>Inl e\<close> of the result type.
\<close>

datatype py_error =
  TypeError | IndexError | AttributeError | ValueError | KeyError | UnboundLocalError
| OverflowError

text \<open>
  A pandas index. A \<^verbatim>\<open>MultiIndex\<close> carries the names of its levels and one entry
  per row: the labels of all levels but the last, and the label of the last level (the
  time point).
\<close>

datatype pd_index =
  Index "int list"
| MultiIndex "string list" "(int list \<times> int) list"

text \<open>A numpy array: its shape and its buffer in row-major order.\<close>

record ndarray =
  shape :: "nat list"
  data :: "int list"

text \<open>
  What a cell of a table can hold: a numpy scalar (numeric column), a nested
  \<^verbatim>\<open>pd.Series\<close> (its index and values), a nested numpy array, or any other
  Python object with neither an \<^verbatim>\<open>index\<close> nor a \<^verbatim>\<open>shape\<close> attribute
  (\<^verbatim>\<open>None\<close>, a Python float).
\<close>

datatype cell =
  NumCell int
| SeriesCell pd_index "int list"
| ArrayCell ndarray
| PyObj

record column =
  col_name :: string
  col_dtype :: string
  col_cells :: "cell list"

record dataframe =
  df_index :: pd_index
  df_columns :: "column list"

text \<open>
  The argument of the utilities. \<open>Other n\<close> is an object of any other Python type;
  \<open>n\<close> is what \<^verbatim>\<open>len\<close> returns on it, \<open>None\<close> when it has no
  \<^verbatim>\<open>__len__\<close>.
\<close>

datatype pyobj =
  NDArray ndarray
| Series pd_index "cell list"
| DataFrame dataframe
| PyList "dataframe list"
| Other "nat option"

text \<open>What \<^verbatim>\<open>get_cutoff\<close> can return.\<close>

datatype pyval =
  Scalar int
| Tuple "int list"
| IndexVal pd_index
| NoneVal

subsection \<open>Python and pandas primitives\<close>

definition bind_err :: "py_error + 'a \<Rightarrow> ('a \<Rightarrow> py_error + 'b) \<Rightarrow> py_error + 'b" where
  "bind_err r f = (case r of Inl e \<Rightarrow> Inl e | Inr v \<Rightarrow> f v)"

text \<open>A list comprehension whose body can raise: the first exception ends it.\<close>

fun comprehension :: "('a \<Rightarrow> py_error + 'b) \<Rightarrow> 'a list \<Rightarrow> py_error + 'b list" where
  "comprehension f [] = Inr []"
| "comprehension f (x # xs) =
     (case f x of
        Inl e \<Rightarrow> Inl e
      | Inr y \<Rightarrow> (case comprehension f xs of Inl e \<Rightarrow> Inl e | Inr ys \<Rightarrow> Inr (y # ys)))"

definition full_row :: "int list \<times> int \<Rightarrow> int list" where
  "full_row r = fst r @ [snd r]"

definition index_len :: "pd_index \<Rightarrow> nat" where
  "index_len idx = (case idx of Index ts \<Rightarrow> length ts | MultiIndex ns rows \<Rightarrow> length rows)"

text \<open>\<^verbatim>\<open>len(obj)\<close>; a 0-dimensional array and an object without \<^verbatim>\<open>__len__\<close> raise.\<close>

definition py_len :: "pyobj \<Rightarrow> py_error + nat" where
  "py_len obj =
     (case obj of
        NDArray a \<Rightarrow> (case shape a of [] \<Rightarrow> Inl TypeError | n # _ \<Rightarrow> Inr n)
      | Series idx cells \<Rightarrow> Inr (index_len idx)
      | DataFrame df \<Rightarrow> Inr (index_len (df_index df))
      | PyList dfs \<Rightarrow> Inr (length dfs)
      | Other None \<Rightarrow> Inl TypeError
      | Other (Some n) \<Rightarrow> Inr n)"

text \<open>\<^verbatim>\<open>pd.RangeIndex(start, stop)\<close>, by its values.\<close>

definition RangeIndex :: "int \<Rightarrow> int \<Rightarrow> pd_index" where
  "RangeIndex start stop = Index [start..stop - 1]"

text \<open>\<^verbatim>\<open>idx[-1]\<close>: the last label, a tuple for a \<^verbatim>\<open>MultiIndex\<close>.\<close>

definition index_last :: "pd_index \<Rightarrow> py_error + pyval" where
  "index_last idx =
     (case idx of
        Index ts \<Rightarrow> (if ts = [] then Inl IndexError else Inr (Scalar (last ts)))
      | MultiIndex ns rows \<Rightarrow>
          (if rows = [] then Inl IndexError else Inr (Tuple (full_row (last rows)))))"

text \<open>\<^verbatim>\<open>idx[[-1]]\<close>: the index of length 1 holding the last label.\<close>

definition index_last_ix :: "pd_index \<Rightarrow> py_error + pyval" where
  "index_last_ix idx =
     (case idx of
        Index ts \<Rightarrow> (if ts = [] then Inl IndexError else Inr (IndexVal (Index [last ts])))
      | MultiIndex ns rows \<Rightarrow>
          (if rows = [] then Inl IndexError else Inr (IndexVal (MultiIndex ns [last rows]))))"

definition index_at_end :: "bool \<Rightarrow> pd_index \<Rightarrow> py_error + pyval" where
  "index_at_end return_index idx =
     (if return_index then index_last_ix idx else index_last idx)"

text \<open>Python's ordering of tuples: the first differing position decides, then the length.\<close>

fun tuple_gt :: "int list \<Rightarrow> int list \<Rightarrow> bool" where
  "tuple_gt [] ys = False"
| "tuple_gt (x # xs) [] = True"
| "tuple_gt (x # xs) (y # ys) = (if x = y then tuple_gt xs ys else x > y)"

text \<open>
  \<^verbatim>\<open>a > b\<close> as \<^verbatim>\<open>max\<close> uses it, that is, through \<^verbatim>\<open>bool\<close>. A numpy
  scalar against a tuple compares elementwise, and so do two pandas indexes of one
  length; the truth value of the resulting array is defined only when it has one element
  (\<^verbatim>\<open>ValueError\<close> otherwise). An index of integers against a \<^verbatim>\<open>MultiIndex\<close>
  compares an integer with a tuple, a \<^verbatim>\<open>TypeError\<close>. The last equation stands for
  the pairs that \<^verbatim>\<open>get_cutoff\<close> never builds: the elements of one list are all
  scalars and tuples, or all indexes.
\<close>

fun py_gt :: "pyval \<Rightarrow> pyval \<Rightarrow> py_error + bool" where
  "py_gt (Scalar a) (Scalar b) = Inr (a > b)"
| "py_gt (Tuple a) (Tuple b) = Inr (tuple_gt a b)"
| "py_gt (Scalar a) (Tuple [b]) = Inr (a > b)"
| "py_gt (Tuple [a]) (Scalar b) = Inr (a > b)"
| "py_gt (Scalar a) (Tuple bs) = Inl ValueError"
| "py_gt (Tuple as) (Scalar b) = Inl ValueError"
| "py_gt (IndexVal (Index [a])) (IndexVal (Index [b])) = Inr (a > b)"
| "py_gt (IndexVal (MultiIndex ns [a])) (IndexVal (MultiIndex ms [b])) =
     Inr (tuple_gt (full_row a) (full_row b))"
| "py_gt (IndexVal (Index [a])) (IndexVal (MultiIndex ms [b])) = Inl TypeError"
| "py_gt (IndexVal (MultiIndex ns [a])) (IndexVal (Index [b])) = Inl TypeError"
| "py_gt (IndexVal a) (IndexVal b) = Inl ValueError"
| "py_gt a b = Inl TypeError"

text \<open>\<^verbatim>\<open>max(xs)\<close>: the first of the greatest elements; \<^verbatim>\<open>ValueError\<close> on \<open>[]\<close>.\<close>

fun max_from :: "pyval \<Rightarrow> pyval list \<Rightarrow> py_error + pyval" where
  "max_from m [] = Inr m"
| "max_from m (x # xs) =
     (case py_gt x m of
        Inl e \<Rightarrow> Inl e
      | Inr b \<Rightarrow> max_from (if b then x else m) xs)"

definition py_max :: "pyval list \<Rightarrow> py_error + pyval" where
  "py_max xs = (case xs of [] \<Rightarrow> Inl ValueError | x # rest \<Rightarrow> max_from x rest)"

subsection \<open>\<^verbatim>\<open>_get_index\<close> and \<^verbatim>\<open>get_time_index\<close>\<close>

text \<open>The \<^verbatim>\<open>index\<close> attribute of a cell, when \<^verbatim>\<open>hasattr(x, "index")\<close>.\<close>

definition cell_index :: "cell \<Rightarrow> pd_index option" where
  "cell_index x = (case x of SeriesCell idx vs \<Rightarrow> Some idx | _ \<Rightarrow> None)"

text \<open>The \<^verbatim>\<open>shape\<close> attribute of a cell; a numpy scalar has the shape \<^verbatim>\<open>()\<close>.\<close>

definition cell_shape :: "cell \<Rightarrow> nat list option" where
  "cell_shape x =
     (case x of
        NumCell v \<Rightarrow> Some []
      | SeriesCell idx vs \<Rightarrow> Some [index_len idx]
      | ArrayCell a \<Rightarrow> Some (shape a)
      | PyObj \<Rightarrow> None)"

text \<open>
  \<^verbatim>\<open>_get_index(x)\<close>. Without an index, \<^verbatim>\<open>x.shape[-1]\<close> raises
  \<^verbatim>\<open>AttributeError\<close> when there is no shape and \<^verbatim>\<open>IndexError\<close> when the
  shape is the empty tuple.
\<close>

definition get_index :: "cell \<Rightarrow> py_error + pd_index" where
  "get_index x =
     (case cell_index x of
        Some idx \<Rightarrow> Inr idx
      | None \<Rightarrow>
          (case cell_shape x of
             None \<Rightarrow> Inl AttributeError
           | Some sh \<Rightarrow>
               (if sh = [] then Inl IndexError else Inr (RangeIndex 0 (int (last sh))))))"

text \<open>\<^verbatim>\<open>X.iloc[0, 0]\<close> and \<^verbatim>\<open>X.iloc[0]\<close>.\<close>

definition iloc00 :: "dataframe \<Rightarrow> py_error + cell" where
  "iloc00 df =
     (if index_len (df_index df) = 0 then Inl IndexError
      else (case df_columns df of
              [] \<Rightarrow> Inl IndexError
            | c # _ \<Rightarrow> (case col_cells c of [] \<Rightarrow> Inl IndexError | x # _ \<Rightarrow> Inr x)))"

definition iloc0 :: "cell list \<Rightarrow> py_error + cell" where
  "iloc0 cells = (case cells of [] \<Rightarrow> Inl IndexError | x # _ \<Rightarrow> Inr x)"

fun level_pos :: "string \<Rightarrow> string list \<Rightarrow> nat option" where
  "level_pos l [] = None"
| "level_pos l (n # ns) =
     (if n = l then Some 0 else map_option Suc (level_pos l ns))"

definition nth_opt :: "'a list \<Rightarrow> nat \<Rightarrow> 'a option" where
  "nth_opt xs p = (case drop p xs of [] \<Rightarrow> None | x # _ \<Rightarrow> Some x)"

definition drop_nth :: "nat \<Rightarrow> 'a list \<Rightarrow> 'a list" where
  "drop_nth p xs = take p xs @ drop (Suc p) xs"

definition split_row :: "int list \<Rightarrow> (int list \<times> int) option" where
  "split_row r = (case rev r of [] \<Rightarrow> None | t # k \<Rightarrow> Some (rev k, t))"

text \<open>
  \<^verbatim>\<open>X.xs(X.index.get_level_values("instances")[0], level="instances").index\<close>:
  the rows of the first instance, with the instance level dropped. One remaining level
  makes a plain index.
\<close>

definition xs_instances :: "string list \<Rightarrow> (int list \<times> int) list \<Rightarrow> py_error + pd_index" where
  "xs_instances ns rows =
     (case level_pos ''instances'' ns of
        None \<Rightarrow> Inl KeyError
      | Some p \<Rightarrow>
          (case rows of
             [] \<Rightarrow> Inl IndexError
           | r # _ \<Rightarrow>
               (let key = nth_opt (full_row r) p;
                    sel = filter (\<lambda>r'. nth_opt (full_row r') p = key) rows;
                    rest = map (\<lambda>r'. drop_nth p (full_row r')) sel;
                    names = drop_nth p ns
                in if length names \<le> 1 then Inr (Index (concat rest))
                   else Inr (MultiIndex names (List.map_filter split_row rest)))))"

definition get_time_index :: "pyobj \<Rightarrow> py_error + pd_index" where
  "get_time_index X =
     (case X of
        DataFrame df \<Rightarrow>
          (case df_index df of
             MultiIndex ns rows \<Rightarrow> xs_instances ns rows
           | Index ts \<Rightarrow> bind_err (iloc00 df) get_index)
      | Series idx cells \<Rightarrow>
          (case idx of
             MultiIndex ns rows \<Rightarrow> xs_instances ns rows
           | Index ts \<Rightarrow> bind_err (iloc0 cells) get_index)
      | NDArray a \<Rightarrow> get_index (ArrayCell a)
      | _ \<Rightarrow> Inl ValueError)"

subsection \<open>\<^verbatim>\<open>get_cutoff\<close>\<close>

text \<open>The numpy branch: \<^verbatim>\<open>cutoff_ind\<close> stays unbound for more than 3 dimensions.\<close>

definition ndarray_cutoff :: "ndarray \<Rightarrow> int \<Rightarrow> bool \<Rightarrow> py_error + pyval" where
  "ndarray_cutoff a cutoff return_index =
     (let ndim = length (shape a);
          cutoff_ind =
            (if ndim = 3 then Some (int (last (shape a)) + cutoff)
             else if ndim < 3 \<and> ndim > 0 then Some (int (hd (shape a)) + cutoff)
             else None)
      in case cutoff_ind of
           None \<Rightarrow> Inl UnboundLocalError
         | Some ci \<Rightarrow>
             (if return_index then Inr (IndexVal (RangeIndex (ci - 1) ci))
              else Inr (Scalar ci)))"

text \<open>\<^verbatim>\<open>x.index[-1]\<close> (or \<^verbatim>\<open>x.index[[-1]]\<close>) of a nested cell.\<close>

definition cell_cutoff :: "bool \<Rightarrow> cell \<Rightarrow> py_error + pyval" where
  "cell_cutoff return_index x =
     (case cell_index x of
        None \<Rightarrow> Inl AttributeError
      | Some idx \<Rightarrow> index_at_end return_index idx)"

text \<open>
  The time points of one instance of a multi-indexed table:
  \<^verbatim>\<open>obj.loc[x].index.get_level_values(-1)\<close>.
\<close>

definition loc_times :: "(int list \<times> int) list \<Rightarrow> int list \<Rightarrow> int list" where
  "loc_times rows x = map snd (filter (\<lambda>r. fst r = x) rows)"

definition multiindex_cutoff ::
  "string list \<Rightarrow> (int list \<times> int) list \<Rightarrow> bool \<Rightarrow> py_error + pyval" where
  "multiindex_cutoff ns rows return_index =
     (if length ns < 2 then Inl ValueError
      else
        (let series_idx = map (loc_times rows) (map fst rows)
         in bind_err
              (comprehension (\<lambda>x. index_at_end return_index (Index x)) series_idx)
              py_max))"

text \<open>
  In the branch of the single-index table \<^verbatim>\<open>obj.dtypes[x]\<close> is one dtype when the
  column name \<open>x\<close> is unique. When two columns share a name it is a series of dtypes,
  and the test \<^verbatim>\<open>obj.dtypes[x] == "object"\<close> of the comprehension raises
  \<^verbatim>\<open>ValueError\<close> (the truth value of a series is ambiguous).
\<close>

definition get_cutoff :: "pyobj \<Rightarrow> int option \<Rightarrow> bool \<Rightarrow> py_error + pyval" where
  "get_cutoff obj cutoff0 return_index =
     (let cutoff = (case cutoff0 of None \<Rightarrow> 0 | Some c \<Rightarrow> c)
      in case py_len obj of
           Inl e \<Rightarrow> Inl e
         | Inr n \<Rightarrow>
             (if n = 0 then Inr (Scalar cutoff)
              else
                (case obj of
                   NDArray a \<Rightarrow> ndarray_cutoff a cutoff return_index
                 | Series idx cells \<Rightarrow> index_at_end return_index idx
                 | DataFrame df \<Rightarrow>
                     (case df_index df of
                        Index ts \<Rightarrow>
                          (if \<not> distinct (map col_name (df_columns df))
                           then Inl ValueError
                           else
                             (let objcols =
                                    filter (\<lambda>c. col_dtype c = ''object'') (df_columns df)
                              in if length objcols = 0
                                 then index_at_end return_index (df_index df)
                                 else bind_err
                                        (comprehension (cell_cutoff return_index)
                                           (concat (map col_cells objcols)))
                                        py_max))
                      | MultiIndex ns rows \<Rightarrow> multiindex_cutoff ns rows return_index)
                 | PyList dfs \<Rightarrow>
                     bind_err
                       (comprehension (\<lambda>x. index_at_end return_index (df_index x)) dfs)
                       py_max
                 | Other n \<Rightarrow> Inr NoneVal)))"

subsection \<open>\<^verbatim>\<open>get_window\<close>\<close>

text \<open>
  \<^verbatim>\<open>check_is_scitype\<close> and \<^verbatim>\<open>convert_to\<close> are imported from
  \<^verbatim>\<open>sktime.datatypes\<close>, outside this file: they are parameters of the model.
  \<open>check_is_scitype obj\<close> gives the validity flag and the \<^verbatim>\<open>mtype\<close> entry of the
  metadata. In the source text the second argument of \<^verbatim>\<open>max\<close> in the assignment of
  \<^verbatim>\<open>window_end\<close> is cut off (the specification writes \<^verbatim>\<open>max(-lag, ...)\<close>);
  it is the parameter \<open>window_end_arg\<close>, a function of the local variables
  \<^verbatim>\<open>window_length\<close>, \<^verbatim>\<open>lag\<close> and \<^verbatim>\<open>obj_len\<close>.

  The cutoff of a non-empty table is an element of a pandas index. For an index built
  from integer labels, and for every level of a \<^verbatim>\<open>MultiIndex\<close>, the element is a
  \<^verbatim>\<open>numpy.int64\<close>, and \<^verbatim>\<open>cutoff - window_length - lag\<close> is 64-bit arithmetic
  that wraps around; for a \<^verbatim>\<open>pd.RangeIndex\<close> the element is a Python integer and the
  arithmetic is exact. The model keeps the labels of an index and not its pandas class,
  which is not part of the source: \<open>int64_cutoff df\<close> tells which of the two the
  table has.
\<close>

record collaborators =
  check_is_scitype :: "pyobj \<Rightarrow> bool \<times> string"
  convert_to :: "pyobj \<Rightarrow> string list \<Rightarrow> py_error + pyobj"
  window_end_arg :: "int \<Rightarrow> int \<Rightarrow> nat \<Rightarrow> int"
  int64_cutoff :: "dataframe \<Rightarrow> bool"

definition GET_LATEST_WINDOW_SUPPORTED_MTYPES :: "string list" where
  "GET_LATEST_WINDOW_SUPPORTED_MTYPES =
     [''pd.DataFrame'', ''pd-multiindex'', ''pd_multiindex_hier'', ''np.ndarray'', ''numpy3D'']"

text \<open>
  Python's slice of a sequence of length \<open>n\<close>: a negative bound counts from the end, and
  both bounds are clipped to \<open>0 .. n\<close>. \<open>None\<close> is an omitted bound.
\<close>

definition slice_bound :: "nat \<Rightarrow> int \<Rightarrow> nat" where
  "slice_bound n i = (if i < 0 then nat (max (i + int n) 0) else min (nat i) n)"

definition slice_range :: "nat \<Rightarrow> int \<Rightarrow> int option \<Rightarrow> nat \<times> nat" where
  "slice_range n start stop =
     (let s = slice_bound n start;
          e = (case stop of None \<Rightarrow> n | Some j \<Rightarrow> slice_bound n j)
      in (s, e - s))"

text \<open>
  \<^verbatim>\<open>obj[start:stop]\<close> on a numpy array slices the first axis: \<open>count\<close> blocks of
  the buffer from block \<open>s\<close> on, each as long as the product of the other dimensions.
\<close>

definition ndarray_slice :: "ndarray \<Rightarrow> int \<Rightarrow> int option \<Rightarrow> ndarray" where
  "ndarray_slice a start stop =
     (case shape a of
        [] \<Rightarrow> a
      | n # dims \<Rightarrow>
          (let (s, count) = slice_range n start stop;
               stride = prod_list dims
           in \<lparr>shape = count # dims,
               data = take (count * stride) (drop (s * stride) (data a))\<rparr>))"

text \<open>\<^verbatim>\<open>obj.iloc[win_select]\<close> with a boolean mask: the rows where the mask is true.\<close>

definition mask_select :: "bool list \<Rightarrow> 'a list \<Rightarrow> 'a list" where
  "mask_select ms xs = map snd (filter fst (zip ms xs))"

definition index_mask :: "bool list \<Rightarrow> pd_index \<Rightarrow> pd_index" where
  "index_mask ms idx =
     (case idx of
        Index ts \<Rightarrow> Index (mask_select ms ts)
      | MultiIndex ns rows \<Rightarrow> MultiIndex ns (mask_select ms rows))"

definition iloc_mask :: "dataframe \<Rightarrow> bool list \<Rightarrow> dataframe" where
  "iloc_mask df ms =
     \<lparr>df_index = index_mask ms (df_index df),
      df_columns =
        map (\<lambda>c. c\<lparr>col_cells := mask_select ms (col_cells c)\<rparr>) (df_columns df)\<rparr>"

text \<open>The time points of the rows: the index, or its last level.\<close>

definition time_indices :: "pd_index \<Rightarrow> int list" where
  "time_indices idx = (case idx of Index ts \<Rightarrow> ts | MultiIndex ns rows \<Rightarrow> map snd rows)"

definition window_ndarray :: "collaborators \<Rightarrow> ndarray \<Rightarrow> int \<Rightarrow> int \<Rightarrow> py_error + pyobj" where
  "window_ndarray C a window_length lag =
     (case py_len (NDArray a) of
        Inl e \<Rightarrow> Inl e
      | Inr obj_len \<Rightarrow>
          (let window_start = max (- window_length - lag) (- int obj_len);
               window_end = max (- lag) (window_end_arg C window_length lag obj_len)
           in if window_end = 0 then Inr (NDArray (ndarray_slice a window_start None))
              else Inr (NDArray (ndarray_slice a window_start (Some window_end)))))"

text \<open>
  The 64-bit integers, and the value an integer has after wrapping around. Subtracting
  the Python integer \<open>b\<close> from the label \<open>a\<close>: exact for a Python integer; for a
  \<^verbatim>\<open>numpy.int64\<close> the result wraps around, and numpy refuses an operand that does
  not fit in 64 bits.
\<close>

definition int64 :: "int \<Rightarrow> bool" where
  "int64 x = (- (2 ^ 63) \<le> x \<and> x < 2 ^ 63)"

definition wrap64 :: "int \<Rightarrow> int" where
  "wrap64 x = (x + 2 ^ 63) mod 2 ^ 64 - 2 ^ 63"

definition label_sub :: "bool \<Rightarrow> int \<Rightarrow> int \<Rightarrow> py_error + int" where
  "label_sub numpy a b =
     (if \<not> numpy then Inr (a - b)
      else if int64 b then Inr (wrap64 (a - b))
      else Inl OverflowError)"

text \<open>
  The branch of the tables. The cutoff of an empty table is the default 0 of
  \<^verbatim>\<open>get_cutoff\<close>, a Python integer.
\<close>

definition window_dataframe ::
  "collaborators \<Rightarrow> string \<Rightarrow> dataframe \<Rightarrow> int \<Rightarrow> int \<Rightarrow> py_error + pyobj" where
  "window_dataframe C obj_in_mtype df window_length lag =
     (case get_cutoff (DataFrame df) (Some 0) False of
        Inl e \<Rightarrow> Inl e
      | Inr (Scalar cutoff) \<Rightarrow>
          (let numpy = (index_len (df_index df) \<noteq> 0 \<and> int64_cutoff C df)
           in case bind_err (label_sub numpy cutoff window_length)
                     (\<lambda>d. label_sub numpy d lag) of
                Inl e \<Rightarrow> Inl e
              | Inr win_start_excl \<Rightarrow>
                  (case label_sub numpy cutoff lag of
                     Inl e \<Rightarrow> Inl e
                   | Inr win_end_incl \<Rightarrow>
                       (let win_select =
                              map (\<lambda>t. t > win_start_excl \<and> t \<le> win_end_incl)
                                (time_indices (df_index df));
                            obj_subset = iloc_mask df win_select
                        in convert_to C (DataFrame obj_subset) [obj_in_mtype])))
      | Inr _ \<Rightarrow> Inl TypeError)"

definition get_window :: "collaborators \<Rightarrow> pyobj \<Rightarrow> int option \<Rightarrow> int \<Rightarrow> py_error + pyobj" where
  "get_window C obj window_length lag =
     (case window_length of
        None \<Rightarrow> Inr obj
      | Some w \<Rightarrow>
          (let (valid, obj_in_mtype) = check_is_scitype C obj
           in if \<not> valid then Inl ValueError
              else
                (case convert_to C obj GET_LATEST_WINDOW_SUPPORTED_MTYPES of
                   Inl e \<Rightarrow> Inl e
                 | Inr (NDArray a) \<Rightarrow> window_ndarray C a w lag
                 | Inr (DataFrame df) \<Rightarrow> window_dataframe C obj_in_mtype df w lag
                 | Inr _ \<Rightarrow> Inl ValueError)))"

text \<open>
  Collaborators that leave every container as it is: what \<^verbatim>\<open>convert_to\<close> does on a
  container that already has the requested encoding. The cut-off argument is taken as
  \<^verbatim>\<open>-obj_len\<close>, the clamp of the line above it, and the labels of every table
  as \<^verbatim>\<open>numpy.int64\<close>.
\<close>

definition mtype_of :: "pyobj \<Rightarrow> string" where
  "mtype_of obj =
     (case obj of
        NDArray a \<Rightarrow> (if length (shape a) = 3 then ''numpy3D'' else ''np.ndarray'')
      | Series idx cells \<Rightarrow> ''pd.Series''
      | DataFrame df \<Rightarrow>
          (case df_index df of
             Index ts \<Rightarrow> ''pd.DataFrame''
           | MultiIndex ns rows \<Rightarrow>
               (if length ns = 2 then ''pd-multiindex'' else ''pd_multiindex_hier''))
      | PyList dfs \<Rightarrow> ''df-list''
      | Other n \<Rightarrow> ''unknown'')"

definition plain_collaborators :: collaborators where
  "plain_collaborators =
     \<lparr>check_is_scitype = (\<lambda>obj. (True, mtype_of obj)),
      convert_to = (\<lambda>obj to_type. Inr obj),
      window_end_arg = (\<lambda>window_length lag obj_len. - int obj_len),
      int64_cutoff = (\<lambda>df. True)\<rparr>"

section \<open>The windows and cutoffs the specification describes\<close>

text \<open>
  The last time point of one instance of a multi-indexed table: the rows are grouped by
  all index levels but the last, and \<open>k\<close> is the key of the group.
\<close>

definition instance_last :: "(int list \<times> int) list \<Rightarrow> int list \<Rightarrow> int" where
  "instance_last rows k = last (map snd (filter (\<lambda>r. fst r = k) rows))"

text \<open>The last time point of a table.\<close>

definition table_last :: "dataframe \<Rightarrow> int" where
  "table_last df = last (time_indices (df_index df))"

text \<open>
  The entries of a column whose time point lies in the half-open interval \<open>(lo, hi]\<close>,
  and the table made of the rows whose time point lies there.
\<close>

definition entries_within :: "int \<Rightarrow> int \<Rightarrow> int list \<Rightarrow> 'a list \<Rightarrow> 'a list" where
  "entries_within lo hi tms xs =
     map snd (filter (\<lambda>p. lo < fst p \<and> fst p \<le> hi) (zip tms xs))"

definition window_of :: "dataframe \<Rightarrow> int \<Rightarrow> int \<Rightarrow> dataframe" where
  "window_of df lo hi =
     \<lparr>df_index =
        (case df_index df of
           Index ts \<Rightarrow> Index (filter (\<lambda>t. lo < t \<and> t \<le> hi) ts)
         | MultiIndex ns rows \<Rightarrow>
             MultiIndex ns (filter (\<lambda>r. lo < snd r \<and> snd r \<le> hi) rows)),
      df_columns =
        map (\<lambda>c. c\<lparr>col_cells :=
                     entries_within lo hi (time_indices (df_index df)) (col_cells c)\<rparr>)
          (df_columns df)\<rparr>"

text \<open>
  The encodings \<^verbatim>\<open>get_window\<close> slices directly: a numpy array with at least one
  dimension, a table of numbers with a plain index and distinct column names, a table
  with a multi-level index.
\<close>

definition sliceable :: "pyobj \<Rightarrow> bool" where
  "sliceable obj =
     (case obj of
        NDArray a \<Rightarrow> shape a \<noteq> []
      | DataFrame df \<Rightarrow>
          (case df_index df of
             Index ts \<Rightarrow>
               distinct (map col_name (df_columns df))
               \<and> filter (\<lambda>c. col_dtype c = ''object'') (df_columns df) = []
           | MultiIndex ns rows \<Rightarrow> 2 \<le> length ns)
      | _ \<Rightarrow> False)"

section \<open>Properties of \<^verbatim>\<open>get_cutoff\<close>\<close>

lemma py_len_NDArray:
  "py_len (NDArray a) = Inr n \<Longrightarrow> shape a \<noteq> [] \<and> hd (shape a) = n"
  by (auto simp: py_len_def split: list.splits)

text \<open>
  C1. On a non-empty supported container the index returned with \<^verbatim>\<open>return_index=True\<close>
  should have length 1 and hold the scalar returned with \<^verbatim>\<open>return_index=False\<close>.
  On a numpy array the code does not do that: for a one-dimensional buffer of 10 elements
  and cutoff 0 the index is \<^verbatim>\<open>RangeIndex(9, 10)\<close>, holding 9, while the scalar is 10.
\<close>

theorem get_cutoff_buffer_index_off_by_one:
  "get_cutoff (NDArray \<lparr>shape = [10], data = [3, 1, 4, 1, 5, 9, 2, 6, 5, 3]\<rparr>) (Some 0) True
     = Inr (IndexVal (Index [9]))
   \<and> get_cutoff (NDArray \<lparr>shape = [10], data = [3, 1, 4, 1, 5, 9, 2, 6, 5, 3]\<rparr>) (Some 0) False
     = Inr (Scalar 10)"
  by (simp add: get_cutoff_def ndarray_cutoff_def py_len_def RangeIndex_def Let_def)

text \<open>
  C4. For a non-empty numpy array the scalar cutoff is the offset plus the size of the last
  dimension when the array has 3 dimensions, and the offset plus the size of the first
  dimension when it has 1 or 2; a one-dimensional buffer of 10 elements with offset 0
  gives 10.
\<close>

theorem get_cutoff_flat_buffer:
  assumes "py_len (NDArray a) = Inr n" and "n \<noteq> 0"
  shows "(length (shape a) = 3 \<longrightarrow>
            get_cutoff (NDArray a) (Some offset) False
              = Inr (Scalar (offset + int (last (shape a)))))
       \<and> (length (shape a) = 1 \<or> length (shape a) = 2 \<longrightarrow>
            get_cutoff (NDArray a) (Some offset) False
              = Inr (Scalar (offset + int (hd (shape a)))))
       \<and> (shape a = [10] \<and> offset = 0 \<longrightarrow>
            get_cutoff (NDArray a) (Some offset) False = Inr (Scalar 10))"
  using assms by (auto simp: get_cutoff_def ndarray_cutoff_def Let_def)

theorem get_cutoff_flat_buffer_witness:
  "py_len (NDArray \<lparr>shape = [10], data = [3, 1, 4, 1, 5, 9, 2, 6, 5, 3]\<rparr>) = Inr 10
   \<and> get_cutoff (NDArray \<lparr>shape = [10], data = [3, 1, 4, 1, 5, 9, 2, 6, 5, 3]\<rparr>) (Some 0) False
       = Inr (Scalar 10)
   \<and> py_len (NDArray \<lparr>shape = [2, 1, 3], data = [1, 2, 3, 4, 5, 6]\<rparr>) = Inr 2
   \<and> get_cutoff (NDArray \<lparr>shape = [2, 1, 3], data = [1, 2, 3, 4, 5, 6]\<rparr>) (Some 5) False
       = Inr (Scalar 8)"
proof -
  have l1: "py_len (NDArray \<lparr>shape = [10], data = [3, 1, 4, 1, 5, 9, 2, 6, 5, 3]\<rparr>) = Inr 10"
    by (simp add: py_len_def)
  have l2: "py_len (NDArray \<lparr>shape = [2, 1, 3], data = [1, 2, 3, 4, 5, 6]\<rparr>) = Inr 2"
    by (simp add: py_len_def)
  show ?thesis
    using l1 l2
      get_cutoff_flat_buffer [OF l1, of 0]
      get_cutoff_flat_buffer [OF l2, of 5]
    by simp
qed

text \<open>
  C5. On an empty container (\<^verbatim>\<open>len(obj) == 0\<close>) \<^verbatim>\<open>get_cutoff\<close> returns the offset
  it was given as a bare scalar, whatever \<^verbatim>\<open>return_index\<close> is.
\<close>

theorem get_cutoff_empty:
  "py_len obj = Inr 0 \<Longrightarrow> get_cutoff obj (Some k) return_index = Inr (Scalar k)"
  by (simp add: get_cutoff_def)

theorem get_cutoff_empty_witness:
  "py_len (DataFrame \<lparr>df_index = Index [], df_columns = []\<rparr>) = Inr 0
   \<and> get_cutoff (DataFrame \<lparr>df_index = Index [], df_columns = []\<rparr>) (Some 7) True
       = Inr (Scalar 7)
   \<and> py_len (NDArray \<lparr>shape = [0, 4], data = []\<rparr>) = Inr 0
   \<and> get_cutoff (NDArray \<lparr>shape = [0, 4], data = []\<rparr>) (Some (- 3)) False = Inr (Scalar (- 3))"
proof -
  have l1: "py_len (DataFrame \<lparr>df_index = Index [], df_columns = []\<rparr>) = Inr 0"
    by (simp add: py_len_def index_len_def)
  have l2: "py_len (NDArray \<lparr>shape = [0, 4], data = []\<rparr>) = Inr 0"
    by (simp add: py_len_def)
  show ?thesis
    using l1 l2 get_cutoff_empty [OF l1, of 7 True] get_cutoff_empty [OF l2, of "- 3" False]
    by simp
qed

text \<open>
  C6. On a non-empty object that is neither a numpy array, nor a \<^verbatim>\<open>pd.Series\<close>, nor a
  \<^verbatim>\<open>pd.DataFrame\<close>, nor a list, every test of the dispatch fails and the function ends
  without a \<^verbatim>\<open>return\<close>: the result is \<^verbatim>\<open>None\<close>, and nothing is raised.
\<close>

theorem get_cutoff_unhandled:
  assumes "py_len obj = Inr n" and "n \<noteq> 0"
    and "\<forall>a. obj \<noteq> NDArray a" and "\<forall>idx cells. obj \<noteq> Series idx cells"
    and "\<forall>df. obj \<noteq> DataFrame df" and "\<forall>dfs. obj \<noteq> PyList dfs"
  shows "get_cutoff obj cutoff return_index = Inr NoneVal"
  using assms by (cases obj) (auto simp: get_cutoff_def)

theorem get_cutoff_unhandled_witness:
  "py_len (Other (Some 3)) = Inr 3 \<and> get_cutoff (Other (Some 3)) (Some 0) True = Inr NoneVal
   \<and> get_cutoff (Other (Some 3)) None False = Inr NoneVal"
proof -
  have l: "py_len (Other (Some 3)) = Inr 3"
    by (simp add: py_len_def)
  show ?thesis
    using l get_cutoff_unhandled [OF l, of "Some 0" True]
      get_cutoff_unhandled [OF l, of None False]
    by simp
qed

lemma comprehension_Inr:
  "(\<And>x. x \<in> set xs \<Longrightarrow> f x = Inr (g x)) \<Longrightarrow> comprehension f xs = Inr (map g xs)"
  by (induction xs) auto

lemma max_from_Scalar:
  "max_from (Scalar m) (map Scalar xs) = Inr (Scalar (fold max xs m))"
proof (induction xs arbitrary: m)
  case Nil
  show ?case by simp
next
  case (Cons x xs)
  have "(if m < x then Scalar x else Scalar m) = Scalar (max x m)"
    by (simp add: max_def)
  then show ?case using Cons.IH [of "max x m"] by simp
qed

lemma max_from_Index:
  "max_from (IndexVal (Index [m])) (map (\<lambda>x. IndexVal (Index [x])) xs)
     = Inr (IndexVal (Index [fold max xs m]))"
proof (induction xs arbitrary: m)
  case Nil
  show ?case by simp
next
  case (Cons x xs)
  have "(if m < x then IndexVal (Index [x]) else IndexVal (Index [m]))
          = IndexVal (Index [max x m])"
    by (simp add: max_def)
  then show ?case using Cons.IH [of "max x m"] by simp
qed

lemma fold_max_Max: "fold max xs (x::int) = Max (set (x # xs))"
  by (simp only: Max.set_eq_fold)

lemma py_max_Scalar:
  "xs \<noteq> [] \<Longrightarrow> py_max (map Scalar xs) = Inr (Scalar (Max (set xs)))"
  by (cases xs) (simp_all add: py_max_def max_from_Scalar fold_max_Max del: Max_insert)

lemma py_max_Index:
  "xs \<noteq> [] \<Longrightarrow>
     py_max (map (\<lambda>x. IndexVal (Index [x])) xs) = Inr (IndexVal (Index [Max (set xs)]))"
  by (cases xs) (simp_all add: py_max_def max_from_Index fold_max_Max del: Max_insert)

lemma loc_times_nonempty:
  "(k, t) \<in> set rows \<Longrightarrow> loc_times rows k \<noteq> []"
  by (force simp: loc_times_def filter_empty_conv)

lemma instance_lasts_set:
  "set (map (\<lambda>r. instance_last rows (fst r)) rows) = instance_last rows ` fst ` set rows"
  by auto

lemma multiindex_comprehension:
  "comprehension (\<lambda>x. index_at_end ri (Index x)) (map (loc_times rows) (map fst rows))
     = Inr (map (\<lambda>v. if ri then IndexVal (Index [v]) else Scalar v)
              (map (\<lambda>r. instance_last rows (fst r)) rows))"
proof -
  let ?g = "\<lambda>x. if ri then IndexVal (Index [last x]) else Scalar (last x)"
  have "comprehension (\<lambda>x. index_at_end ri (Index x)) (map (loc_times rows) (map fst rows))
          = Inr (map ?g (map (loc_times rows) (map fst rows)))"
    by (rule comprehension_Inr)
       (auto simp: index_at_end_def index_last_def index_last_ix_def loc_times_nonempty)
  also have "map ?g (map (loc_times rows) (map fst rows))
               = map (\<lambda>v. if ri then IndexVal (Index [v]) else Scalar v)
                   (map (\<lambda>r. instance_last rows (fst r)) rows)"
    by (simp add: instance_last_def loc_times_def)
  finally show ?thesis .
qed

lemma multiindex_cutoff_scalar:
  assumes "rows \<noteq> []" and "2 \<le> length ns"
  shows "multiindex_cutoff ns rows False
           = Inr (Scalar (Max (instance_last rows ` fst ` set rows)))"
proof -
  let ?ls = "map (\<lambda>r. instance_last rows (fst r)) rows"
  have "multiindex_cutoff ns rows False
          = bind_err (comprehension (\<lambda>x. index_at_end False (Index x))
                        (map (loc_times rows) (map fst rows))) py_max"
    using assms(2) by (simp add: multiindex_cutoff_def Let_def)
  also have "\<dots> = py_max (map Scalar ?ls)"
    by (simp only: multiindex_comprehension bind_err_def sum.case if_False)
  also have "\<dots> = Inr (Scalar (Max (set ?ls)))"
    using assms(1) by (intro py_max_Scalar) simp
  finally show ?thesis
    by (simp only: instance_lasts_set)
qed

lemma multiindex_cutoff_index:
  assumes "rows \<noteq> []" and "2 \<le> length ns"
  shows "multiindex_cutoff ns rows True
           = Inr (IndexVal (Index [Max (instance_last rows ` fst ` set rows)]))"
proof -
  let ?ls = "map (\<lambda>r. instance_last rows (fst r)) rows"
  have "multiindex_cutoff ns rows True
          = bind_err (comprehension (\<lambda>x. index_at_end True (Index x))
                        (map (loc_times rows) (map fst rows))) py_max"
    using assms(2) by (simp add: multiindex_cutoff_def Let_def)
  also have "\<dots> = py_max (map (\<lambda>x. IndexVal (Index [x])) ?ls)"
    by (simp only: multiindex_comprehension bind_err_def sum.case if_True)
  also have "\<dots> = Inr (IndexVal (Index [Max (set ?ls)]))"
    using assms(1) by (intro py_max_Index) simp
  finally show ?thesis
    by (simp only: instance_lasts_set)
qed

lemma list_cutoff_scalar:
  assumes "dfs \<noteq> []" and "\<And>x. x \<in> set dfs \<Longrightarrow> \<exists>ts. df_index x = Index ts \<and> ts \<noteq> []"
  shows "get_cutoff (PyList dfs) c False = Inr (Scalar (Max (table_last ` set dfs)))"
proof -
  have "comprehension (\<lambda>x. index_at_end False (df_index x)) dfs
          = Inr (map (\<lambda>x. Scalar (table_last x)) dfs)"
    by (rule comprehension_Inr)
       (use assms(2) in \<open>force simp: index_at_end_def index_last_def table_last_def time_indices_def\<close>)
  then show ?thesis
    using assms(1) py_max_Scalar [of "map table_last dfs"]
    by (simp add: get_cutoff_def py_len_def bind_err_def comp_def)
qed

lemma list_cutoff_index:
  assumes "dfs \<noteq> []" and "\<And>x. x \<in> set dfs \<Longrightarrow> \<exists>ts. df_index x = Index ts \<and> ts \<noteq> []"
  shows "get_cutoff (PyList dfs) c True = Inr (IndexVal (Index [Max (table_last ` set dfs)]))"
proof -
  have "comprehension (\<lambda>x. index_at_end True (df_index x)) dfs
          = Inr (map (\<lambda>x. IndexVal (Index [table_last x])) dfs)"
    by (rule comprehension_Inr)
       (use assms(2) in \<open>force simp: index_at_end_def index_last_ix_def table_last_def time_indices_def\<close>)
  then show ?thesis
    using assms(1) py_max_Index [of "map table_last dfs"]
    by (simp add: get_cutoff_def py_len_def bind_err_def comp_def)
qed

lemma get_cutoff_MultiIndex:
  "df_index df = MultiIndex ns rows \<Longrightarrow> rows \<noteq> [] \<Longrightarrow>
     get_cutoff (DataFrame df) c ri = multiindex_cutoff ns rows ri"
  by (simp add: get_cutoff_def py_len_def index_len_def)

text \<open>
  C3. For a non-empty multi-instance container, a table with a multi-level index or a list
  of tables, \<^verbatim>\<open>get_cutoff\<close> returns the maximum over the instances of the last time
  point of each instance; in the multi-index case the instances are the groups of rows
  that agree on all index levels but the last. The instances may have different lengths,
  but each table of a list has to hold at least one row (under a plain index): on a
  list with an empty table \<^verbatim>\<open>x.index[-1]\<close> raises \<^verbatim>\<open>IndexError\<close>.
\<close>

theorem get_cutoff_multi_instance:
  "(df_index df = MultiIndex ns rows \<and> rows \<noteq> [] \<and> 2 \<le> length ns \<longrightarrow>
      get_cutoff (DataFrame df) c False
        = Inr (Scalar (Max (instance_last rows ` fst ` set rows))))
   \<and> (dfs \<noteq> [] \<and> (\<forall>x \<in> set dfs. \<exists>ts. df_index x = Index ts \<and> ts \<noteq> []) \<longrightarrow>
      get_cutoff (PyList dfs) c False = Inr (Scalar (Max (table_last ` set dfs))))"
  using multiindex_cutoff_scalar [of rows ns] list_cutoff_scalar [of dfs c]
  by (auto simp: get_cutoff_MultiIndex)

theorem get_cutoff_multi_instance_witness:
  "get_cutoff
     (DataFrame \<lparr>df_index = MultiIndex [''instances'', ''timepoints'']
                    [([0], 0), ([0], 1), ([0], 2), ([0], 3), ([1], 0), ([1], 1)],
                 df_columns = []\<rparr>) (Some 0) False = Inr (Scalar 3)
   \<and> get_cutoff
       (PyList [\<lparr>df_index = Index [3, 4, 5], df_columns = []\<rparr>,
                \<lparr>df_index = Index [7], df_columns = []\<rparr>,
                \<lparr>df_index = Index [2, 3, 4, 5, 6], df_columns = []\<rparr>]) (Some 0) False
       = Inr (Scalar 7)"
  using get_cutoff_multi_instance
    [of "\<lparr>df_index = MultiIndex [''instances'', ''timepoints'']
                    [([0], 0), ([0], 1), ([0], 2), ([0], 3), ([1], 0), ([1], 1)],
          df_columns = []\<rparr>"
        "[''instances'', ''timepoints'']"
        "[([0], 0), ([0], 1), ([0], 2), ([0], 3), ([1], 0), ([1], 1)]"
        "Some 0"
        "[\<lparr>df_index = Index [3, 4, 5], df_columns = []\<rparr>,
          \<lparr>df_index = Index [7], df_columns = []\<rparr>,
          \<lparr>df_index = Index [2, 3, 4, 5, 6], df_columns = []\<rparr>]"]
  by (simp add: instance_last_def table_last_def time_indices_def)

text \<open>A list of two tables, the second without rows.\<close>

theorem get_cutoff_list_with_empty_table_counterexample:
  "py_len (PyList [\<lparr>df_index = Index [1, 5], df_columns = []\<rparr>,
                   \<lparr>df_index = Index [], df_columns = []\<rparr>]) = Inr 2
   \<and> get_cutoff (PyList [\<lparr>df_index = Index [1, 5], df_columns = []\<rparr>,
                         \<lparr>df_index = Index [], df_columns = []\<rparr>]) (Some 0) False
     = Inl IndexError"
  by (simp add: get_cutoff_def py_len_def bind_err_def index_at_end_def index_last_def)

subsection \<open>The two forms of the cutoff\<close>

text \<open>
  On every numpy array with at most 3 dimensions the index form holds the scalar form
  minus one, while the branches for a series, a multi-indexed table and a list of tables
  wrap the very scalar they return.
\<close>

lemma get_cutoff_buffer_index_below_scalar:
  assumes "py_len (NDArray a) = Inr n" and "n \<noteq> 0" and "length (shape a) \<le> 3"
  shows "\<exists>c. get_cutoff (NDArray a) (Some k) False = Inr (Scalar c)
            \<and> get_cutoff (NDArray a) (Some k) True = Inr (IndexVal (Index [c - 1]))"
proof -
  have "shape a \<noteq> []"
    using py_len_NDArray [OF assms(1)] by simp
  then have "0 < length (shape a)"
    by simp
  then show ?thesis
    using assms by (auto simp: get_cutoff_def ndarray_cutoff_def RangeIndex_def Let_def)
qed

lemma get_cutoff_index_wraps_scalar:
  "ts \<noteq> [] \<Longrightarrow>
     get_cutoff (Series (Index ts) cells) c False = Inr (Scalar (last ts))
     \<and> get_cutoff (Series (Index ts) cells) c True = Inr (IndexVal (Index [last ts]))"
  "df_index df = MultiIndex ns rows \<Longrightarrow> rows \<noteq> [] \<Longrightarrow> 2 \<le> length ns \<Longrightarrow>
     \<exists>v. get_cutoff (DataFrame df) c False = Inr (Scalar v)
       \<and> get_cutoff (DataFrame df) c True = Inr (IndexVal (Index [v]))"
  "dfs \<noteq> [] \<Longrightarrow> (\<And>x. x \<in> set dfs \<Longrightarrow> \<exists>ts. df_index x = Index ts \<and> ts \<noteq> []) \<Longrightarrow>
     \<exists>v. get_cutoff (PyList dfs) c False = Inr (Scalar v)
       \<and> get_cutoff (PyList dfs) c True = Inr (IndexVal (Index [v]))"
proof -
  show "ts \<noteq> [] \<Longrightarrow>
     get_cutoff (Series (Index ts) cells) c False = Inr (Scalar (last ts))
     \<and> get_cutoff (Series (Index ts) cells) c True = Inr (IndexVal (Index [last ts]))"
    by (simp add: get_cutoff_def py_len_def index_len_def index_at_end_def index_last_def
          index_last_ix_def)
  show "df_index df = MultiIndex ns rows \<Longrightarrow> rows \<noteq> [] \<Longrightarrow> 2 \<le> length ns \<Longrightarrow>
     \<exists>v. get_cutoff (DataFrame df) c False = Inr (Scalar v)
       \<and> get_cutoff (DataFrame df) c True = Inr (IndexVal (Index [v]))"
    by (simp add: get_cutoff_MultiIndex multiindex_cutoff_scalar multiindex_cutoff_index)
  show "dfs \<noteq> [] \<Longrightarrow> (\<And>x. x \<in> set dfs \<Longrightarrow> \<exists>ts. df_index x = Index ts \<and> ts \<noteq> []) \<Longrightarrow>
     \<exists>v. get_cutoff (PyList dfs) c False = Inr (Scalar v)
       \<and> get_cutoff (PyList dfs) c True = Inr (IndexVal (Index [v]))"
    using list_cutoff_scalar [of dfs c] list_cutoff_index [of dfs c] by simp
qed


section \<open>Properties of \<^verbatim>\<open>get_time_index\<close>\<close>

text \<open>Anything but a table, a series or a numpy array raises \<^verbatim>\<open>ValueError\<close>.\<close>

lemma get_time_index_unsupported:
  "get_time_index (PyList dfs) = Inl ValueError" "get_time_index (Other n) = Inl ValueError"
  by (simp_all add: get_time_index_def)


text \<open>
  C9. \<^verbatim>\<open>get_time_index\<close> should return an index on every supported container. The
  docstring lists the plain \<^verbatim>\<open>pd.DataFrame\<close> and \<^verbatim>\<open>pd.Series\<close> among them, but
  on a table or series of numbers with a single-level index the code looks into the first
  cell, a numpy scalar with the shape \<^verbatim>\<open>()\<close>, and \<^verbatim>\<open>x.shape[-1]\<close> raises
  \<^verbatim>\<open>IndexError\<close>.
\<close>

theorem get_time_index_plain_table_raises:
  "get_time_index
     (DataFrame \<lparr>df_index = Index [0, 1, 2],
        df_columns = [\<lparr>col_name = ''y'', col_dtype = ''int64'',
                       col_cells = [NumCell 5, NumCell 6, NumCell 7]\<rparr>]\<rparr>)
     = Inl IndexError
   \<and> get_time_index (Series (Index [0, 1, 2]) [NumCell 5, NumCell 6, NumCell 7])
     = Inl IndexError"
  by (simp add: get_time_index_def iloc00_def iloc0_def bind_err_def get_index_def
        cell_index_def cell_shape_def index_len_def)

lemma RangeIndex_from_0: "RangeIndex 0 (int n) = Index (map int [0..<n])"
proof -
  have "[0..int n - 1] = map int [0..<n]"
  proof (induction n)
    case 0
    show ?case by simp
  next
    case (Suc n)
    have "[0..int (Suc n) - 1] = [0..int n - 1] @ [int n]"
      using upto_rec2 [of 0 "int n"] by simp
    then show ?case using Suc by simp
  qed
  then show ?thesis by (simp add: RangeIndex_def)
qed

text \<open>
  C10. On a \<^verbatim>\<open>pd.DataFrame\<close> with a single-level index \<^verbatim>\<open>get_time_index\<close>
  returns what \<^verbatim>\<open>_get_index\<close> makes of the first cell \<^verbatim>\<open>X.iloc[0, 0]\<close>: the
  cell's own index when it has one, otherwise the integer range as long as the cell's last
  dimension. The row index of the table is not read: any other non-empty row index
  gives the same result. A table of plain numbers is therefore not handled: its first cell
  has no dimension and the call raises.
\<close>

theorem get_time_index_single_level:
  assumes "df_index df = Index ts"
  shows "get_time_index (DataFrame df) = bind_err (iloc00 df) get_index
       \<and> (\<forall>x. iloc00 df = Inr x \<longrightarrow>
             (\<forall>idx. cell_index x = Some idx \<longrightarrow> get_time_index (DataFrame df) = Inr idx)
           \<and> (\<forall>sh. cell_index x = None \<and> cell_shape x = Some sh \<and> sh \<noteq> [] \<longrightarrow>
                 get_time_index (DataFrame df) = Inr (Index (map int [0..<last sh])))
           \<and> (\<forall>ts'. ts' \<noteq> [] \<longrightarrow>
                 get_time_index (DataFrame (df\<lparr>df_index := Index ts'\<rparr>))
                   = get_time_index (DataFrame df))
           \<and> (\<forall>v. x = NumCell v \<longrightarrow> get_time_index (DataFrame df) = Inl IndexError))"
proof -
  have b: "get_time_index (DataFrame df) = bind_err (iloc00 df) get_index"
    using assms by (simp add: get_time_index_def)
  have "(\<forall>idx. cell_index x = Some idx \<longrightarrow> get_time_index (DataFrame df) = Inr idx)
      \<and> (\<forall>sh. cell_index x = None \<and> cell_shape x = Some sh \<and> sh \<noteq> [] \<longrightarrow>
            get_time_index (DataFrame df) = Inr (Index (map int [0..<last sh])))
      \<and> (\<forall>ts'. ts' \<noteq> [] \<longrightarrow>
            get_time_index (DataFrame (df\<lparr>df_index := Index ts'\<rparr>))
              = get_time_index (DataFrame df))
      \<and> (\<forall>v. x = NumCell v \<longrightarrow> get_time_index (DataFrame df) = Inl IndexError)"
    if x: "iloc00 df = Inr x" for x
  proof -
    have g: "get_time_index (DataFrame df) = get_index x"
      using x by (simp add: b bind_err_def)
    have l: "index_len (df_index df) \<noteq> 0"
      using x by (auto simp: iloc00_def split: if_splits)
    have "\<And>ts'. ts' \<noteq> [] \<Longrightarrow> iloc00 (df\<lparr>df_index := Index ts'\<rparr>) = iloc00 df"
      using l by (simp add: iloc00_def index_len_def)
    then have i: "\<And>ts'. ts' \<noteq> [] \<Longrightarrow>
        get_time_index (DataFrame (df\<lparr>df_index := Index ts'\<rparr>)) = get_time_index (DataFrame df)"
      using assms by (simp add: get_time_index_def)
    show ?thesis
      using i by (auto simp: g get_index_def RangeIndex_from_0 cell_index_def cell_shape_def)
  qed
  then show ?thesis
    using b by blast
qed

theorem get_time_index_single_level_witness:
  "iloc00 \<lparr>df_index = Index [0, 1],
           df_columns = [\<lparr>col_name = ''dim_0'', col_dtype = ''object'',
                          col_cells = [SeriesCell (Index [10, 11, 12]) [5, 6, 7],
                                       SeriesCell (Index [10, 11, 12]) [8, 9, 4]]\<rparr>]\<rparr>
     = Inr (SeriesCell (Index [10, 11, 12]) [5, 6, 7])
   \<and> get_time_index
       (DataFrame \<lparr>df_index = Index [0, 1],
           df_columns = [\<lparr>col_name = ''dim_0'', col_dtype = ''object'',
                          col_cells = [SeriesCell (Index [10, 11, 12]) [5, 6, 7],
                                       SeriesCell (Index [10, 11, 12]) [8, 9, 4]]\<rparr>]\<rparr>)
     = Inr (Index [10, 11, 12])
   \<and> iloc00 \<lparr>df_index = Index [0, 1],
           df_columns = [\<lparr>col_name = ''dim_0'', col_dtype = ''object'',
                          col_cells = [ArrayCell \<lparr>shape = [3], data = [5, 6, 7]\<rparr>,
                                       ArrayCell \<lparr>shape = [3], data = [8, 9, 4]\<rparr>]\<rparr>]\<rparr>
     = Inr (ArrayCell \<lparr>shape = [3], data = [5, 6, 7]\<rparr>)
   \<and> get_time_index
       (DataFrame \<lparr>df_index = Index [0, 1],
           df_columns = [\<lparr>col_name = ''dim_0'', col_dtype = ''object'',
                          col_cells = [ArrayCell \<lparr>shape = [3], data = [5, 6, 7]\<rparr>,
                                       ArrayCell \<lparr>shape = [3], data = [8, 9, 4]\<rparr>]\<rparr>]\<rparr>)
     = Inr (Index [0, 1, 2])"
proof -
  let ?c = "SeriesCell (Index [10, 11, 12]) [5, 6, 7]"
  let ?d = "\<lparr>df_index = Index [0, 1],
           df_columns = [\<lparr>col_name = ''dim_0'', col_dtype = ''object'',
                          col_cells = [?c, SeriesCell (Index [10, 11, 12]) [8, 9, 4]]\<rparr>]\<rparr>"
  let ?c' = "ArrayCell \<lparr>shape = [3], data = [5, 6, 7]\<rparr>"
  let ?d' = "\<lparr>df_index = Index [0, 1],
           df_columns = [\<lparr>col_name = ''dim_0'', col_dtype = ''object'',
                          col_cells = [?c', ArrayCell \<lparr>shape = [3], data = [8, 9, 4]\<rparr>]\<rparr>]\<rparr>"
  have i: "df_index ?d = Index [0, 1]" and i': "df_index ?d' = Index [0, 1]"
    by simp_all
  have c: "iloc00 ?d = Inr ?c" and c': "iloc00 ?d' = Inr ?c'"
    by (simp_all add: iloc00_def index_len_def)
  have u: "[0..<3] = [0, 1, 2]"
    by (simp add: upt_rec)
  have t: "get_time_index (DataFrame ?d) = Inr (Index [10, 11, 12])"
    using get_time_index_single_level
      [OF i, THEN conjunct2, rule_format, OF c, THEN conjunct1, rule_format,
        of "Index [10, 11, 12]"]
    by (simp add: cell_index_def)
  have t': "get_time_index (DataFrame ?d') = Inr (Index [0, 1, 2])"
    using get_time_index_single_level
      [OF i', THEN conjunct2, rule_format, OF c', THEN conjunct2, THEN conjunct1,
        rule_format, of "[3]"]
    by (simp add: cell_index_def cell_shape_def u)
  show ?thesis
    using c c' t t' by simp
qed

section \<open>Properties of \<^verbatim>\<open>get_window\<close>\<close>

lemma mask_select_zip:
  "mask_select (map P ts) xs = map snd (filter (\<lambda>p. P (fst p)) (zip ts xs))"
proof (induction ts arbitrary: xs)
  case Nil
  show ?case by (simp add: mask_select_def)
next
  case (Cons t ts)
  show ?case
  proof (cases xs)
    case Nil
    then show ?thesis by (simp add: mask_select_def)
  next
    case (Cons x xs')
    then show ?thesis using Cons.IH [of xs'] by (simp add: mask_select_def)
  qed
qed

lemma mask_select_filter:
  "mask_select (map (\<lambda>x. P (f x)) xs) xs = filter (\<lambda>x. P (f x)) xs"
  by (induction xs) (simp_all add: mask_select_def)

lemma index_mask_window:
  "index_mask (map P (time_indices idx)) idx
     = (case idx of
          Index ts \<Rightarrow> Index (filter P ts)
        | MultiIndex ns rows \<Rightarrow> MultiIndex ns (filter (\<lambda>r. P (snd r)) rows))"
proof (cases idx)
  case (Index ts)
  then show ?thesis
    using mask_select_filter [of P "\<lambda>t. t" ts]
    by (simp add: index_mask_def time_indices_def)
next
  case (MultiIndex ns rows)
  then show ?thesis
    using mask_select_filter [of P snd rows]
    by (simp add: index_mask_def time_indices_def comp_def)
qed

lemma iloc_mask_window:
  "iloc_mask df (map (\<lambda>t. lo < t \<and> t \<le> hi) (time_indices (df_index df))) = window_of df lo hi"
  by (simp add: iloc_mask_def window_of_def index_mask_window entries_within_def
        mask_select_zip)

lemma time_indices_window_of:
  "time_indices (df_index (window_of df lo hi))
     = filter (\<lambda>t. lo < t \<and> t \<le> hi) (time_indices (df_index df))"
  by (cases "df_index df") (simp_all add: window_of_def time_indices_def filter_map comp_def)

lemma wrap64_id: "int64 x \<Longrightarrow> wrap64 x = x"
  by (simp add: int64_def wrap64_def)

lemma wrap64_sub: "wrap64 (wrap64 a - b) = wrap64 (a - b)"
proof -
  have "(wrap64 a - b + 2 ^ 63) mod 2 ^ 64 = ((a + 2 ^ 63) mod 2 ^ 64 - b) mod 2 ^ 64"
    by (simp add: wrap64_def)
  also have "\<dots> = (a + 2 ^ 63 - b) mod 2 ^ 64"
    by (rule mod_diff_left_eq)
  also have "a + 2 ^ 63 - b = a - b + 2 ^ 63"
    by simp
  finally show ?thesis
    by (simp add: wrap64_def [of "wrap64 a - b"] wrap64_def [of "a - b"])
qed

lemma label_sub_twice:
  assumes "\<not> numpy \<or> (int64 w \<and> int64 L \<and> int64 (t - w - L))"
  shows "bind_err (label_sub numpy t w) (\<lambda>d. label_sub numpy d L) = Inr (t - w - L)"
proof (cases numpy)
  case False
  then show ?thesis by (simp add: label_sub_def bind_err_def)
next
  case True
  then have "wrap64 (wrap64 (t - w) - L) = t - w - L"
    using assms by (simp add: wrap64_sub wrap64_id)
  then show ?thesis
    using True assms by (simp add: label_sub_def bind_err_def)
qed

lemma label_sub_once:
  assumes "\<not> numpy \<or> (int64 L \<and> int64 (t - L))"
  shows "label_sub numpy t L = Inr (t - L)"
  using assms by (auto simp: label_sub_def wrap64_id)

lemma window_dataframe_eq:
  assumes "get_cutoff (DataFrame df) (Some 0) False = Inr (Scalar t)"
    and "index_len (df_index df) = 0
         \<or> (int64 w \<and> int64 L \<and> int64 (t - w - L) \<and> int64 (t - L))"
  shows "window_dataframe C m df w L
           = convert_to C (DataFrame (window_of df (t - w - L) (t - L))) [m]"
proof -
  let ?numpy = "index_len (df_index df) \<noteq> 0 \<and> int64_cutoff C df"
  have 1: "bind_err (label_sub ?numpy t w) (\<lambda>d. label_sub ?numpy d L) = Inr (t - w - L)"
    using assms(2) by (intro label_sub_twice) auto
  have 2: "label_sub ?numpy t L = Inr (t - L)"
    using assms(2) by (intro label_sub_once) auto
  show ?thesis
    unfolding window_dataframe_def assms(1) Let_def
    by (simp only: 1 2 sum.case pyval.case iloc_mask_window)
qed




lemma slice_range_trailing:
  assumes "0 < w"
  shows "slice_range n (max (- w) (- int n)) None = (n - min (nat w) n, min (nat w) n)"
proof -
  have "slice_bound n (max (- w) (- int n)) = n - min (nat w) n"
    using assms by (auto simp: slice_bound_def max_def min_def)
  then show ?thesis
    by (simp add: slice_range_def Let_def)
qed

lemma window_ndarray_positions:
  assumes "shape a = n # dims"
  shows "window_ndarray C a w lag
           = Inr (NDArray (ndarray_slice a (max (- w - lag) (- int n))
                (if max (- lag) (window_end_arg C w lag n) = 0 then None
                 else Some (max (- lag) (window_end_arg C w lag n)))))"
  using assms by (simp add: window_ndarray_def py_len_def Let_def)

lemma window_ndarray_trailing:
  assumes "shape a = n # dims" and "0 < w" and "window_end_arg C w 0 n \<le> 0"
  shows "window_ndarray C a w 0
           = Inr (NDArray \<lparr>shape = min (nat w) n # dims,
                   data = take (min (nat w) n * prod_list dims)
                            (drop ((n - min (nat w) n) * prod_list dims) (data a))\<rparr>)"
proof -
  have "max 0 (window_end_arg C w 0 n) = 0"
    using assms(3) by simp
  then show ?thesis
    using assms(1) slice_range_trailing [OF assms(2), of n]
    by (simp add: window_ndarray_positions [OF assms(1)] ndarray_slice_def Let_def)
qed

text \<open>
  C7. On a numpy array of length \<open>n\<close> (accepted and left as it is by the collaborators)
  the slice starts at \<^verbatim>\<open>max(-window_length - lag, -n)\<close> and ends at
  \<^verbatim>\<open>max(-lag, ...)\<close>, where an end of 0 means that the slice runs to the end of the
  array. So with lag 0, a positive window length and a cut-off argument that is not
  positive, the result is the last \<open>min window_length n\<close> entries of the array. It is
  empty only when the array itself is empty: the window of length 1 of an array of
  length 0 is that array, so "never empty" holds for \<open>n > 0\<close> only.
\<close>

theorem get_window_flat_buffer:
  assumes "shape a = n # dims"
    and "check_is_scitype C (NDArray a) = (True, m)"
    and "convert_to C (NDArray a) GET_LATEST_WINDOW_SUPPORTED_MTYPES = Inr (NDArray a)"
  shows "get_window C (NDArray a) (Some w) lag
           = Inr (NDArray (ndarray_slice a (max (- w - lag) (- int n))
                (if max (- lag) (window_end_arg C w lag n) = 0 then None
                 else Some (max (- lag) (window_end_arg C w lag n)))))
       \<and> (0 < w \<and> window_end_arg C w 0 n \<le> 0 \<longrightarrow>
            (\<exists>r. get_window C (NDArray a) (Some w) 0 = Inr (NDArray r)
               \<and> shape r = min (nat w) n # dims
               \<and> data r = take (min (nat w) n * prod_list dims)
                            (drop ((n - min (nat w) n) * prod_list dims) (data a))
               \<and> (length (data a) = n * prod_list dims \<longrightarrow>
                    data r = drop ((n - min (nat w) n) * prod_list dims) (data a))
               \<and> py_len (NDArray r) = Inr (min (nat w) n)
               \<and> (0 < n \<longrightarrow> py_len (NDArray r) \<noteq> Inr 0)))"
proof -
  have g: "\<And>l. get_window C (NDArray a) (Some w) l = window_ndarray C a w l"
    using assms(2,3) by (simp add: get_window_def)
  have p1: "get_window C (NDArray a) (Some w) lag
           = Inr (NDArray (ndarray_slice a (max (- w - lag) (- int n))
                (if max (- lag) (window_end_arg C w lag n) = 0 then None
                 else Some (max (- lag) (window_end_arg C w lag n)))))"
    by (simp only: g window_ndarray_positions [OF assms(1)])
  have p2: "\<exists>r. get_window C (NDArray a) (Some w) 0 = Inr (NDArray r)
               \<and> shape r = min (nat w) n # dims
               \<and> data r = take (min (nat w) n * prod_list dims)
                            (drop ((n - min (nat w) n) * prod_list dims) (data a))
               \<and> (length (data a) = n * prod_list dims \<longrightarrow>
                    data r = drop ((n - min (nat w) n) * prod_list dims) (data a))
               \<and> py_len (NDArray r) = Inr (min (nat w) n)
               \<and> (0 < n \<longrightarrow> py_len (NDArray r) \<noteq> Inr 0)"
    if w: "0 < w" and e: "window_end_arg C w 0 n \<le> 0"
  proof -
    let ?r = "\<lparr>shape = min (nat w) n # dims,
               data = take (min (nat w) n * prod_list dims)
                        (drop ((n - min (nat w) n) * prod_list dims) (data a))\<rparr>"
    have r: "get_window C (NDArray a) (Some w) 0 = Inr (NDArray ?r)"
      by (simp only: g window_ndarray_trailing [OF assms(1) w e])
    have t: "length (data a) = n * prod_list dims \<longrightarrow>
        data ?r = drop ((n - min (nat w) n) * prod_list dims) (data a)"
      by (simp add: diff_mult_distrib [symmetric])
    have l: "py_len (NDArray ?r) = Inr (min (nat w) n)"
      by (simp add: py_len_def)
    have ne: "0 < n \<longrightarrow> py_len (NDArray ?r) \<noteq> Inr 0"
      using w by (simp add: py_len_def)
    show ?thesis
      using r t l ne by (intro exI [of _ ?r]) simp
  qed
  show ?thesis
    using p1 p2 by blast
qed

theorem get_window_flat_buffer_witness:
  "check_is_scitype plain_collaborators (NDArray \<lparr>shape = [5], data = [1, 2, 3, 4, 5]\<rparr>)
     = (True, ''np.ndarray'')
   \<and> window_end_arg plain_collaborators 2 0 5 \<le> 0
   \<and> get_window plain_collaborators (NDArray \<lparr>shape = [5], data = [1, 2, 3, 4, 5]\<rparr>)
       (Some 2) 0
     = Inr (NDArray \<lparr>shape = [2], data = [4, 5]\<rparr>)
   \<and> get_window plain_collaborators (NDArray \<lparr>shape = [5], data = [1, 2, 3, 4, 5]\<rparr>)
       (Some 2) 1
     = Inr (NDArray \<lparr>shape = [2], data = [3, 4]\<rparr>)"
proof -
  let ?a = "\<lparr>shape = [5], data = [1, 2, 3, 4, 5]\<rparr>"
  have h1: "shape ?a = 5 # []"
    by simp
  have h2: "check_is_scitype plain_collaborators (NDArray ?a) = (True, ''np.ndarray'')"
    by (simp add: plain_collaborators_def mtype_of_def)
  have h3: "convert_to plain_collaborators (NDArray ?a) GET_LATEST_WINDOW_SUPPORTED_MTYPES
              = Inr (NDArray ?a)"
    by (simp add: plain_collaborators_def)
  have e: "window_end_arg plain_collaborators 2 0 5 \<le> 0"
    by (simp add: plain_collaborators_def)
  have e': "window_end_arg plain_collaborators 2 1 5 = - 5"
    by (simp add: plain_collaborators_def)
  show ?thesis
    using h2 e e' get_window_flat_buffer [OF h1 h2 h3, of 2 0]
      get_window_flat_buffer [OF h1 h2 h3, of 2 1]
    by (simp add: ndarray_slice_def slice_range_def slice_bound_def)
qed

text \<open>The window of an empty array is empty, also for a positive window length.\<close>

theorem get_window_empty_buffer_counterexample:
  "get_window plain_collaborators (NDArray \<lparr>shape = [0], data = []\<rparr>) (Some 1) 0
     = Inr (NDArray \<lparr>shape = [0], data = []\<rparr>)
   \<and> py_len (NDArray \<lparr>shape = [0], data = []\<rparr>) = Inr 0"
  by (simp add: get_window_def window_ndarray_def py_len_def plain_collaborators_def
        mtype_of_def ndarray_slice_def slice_range_def slice_bound_def)

subsection \<open>Applying a window to a window\<close>

lemma last_filter:
  "xs \<noteq> [] \<Longrightarrow> P (last xs) \<Longrightarrow> last (filter P xs) = last xs"
  by (induction xs) (auto simp: filter_empty_conv)

lemma entries_within_empty:
  "filter (\<lambda>t. lo < t \<and> t \<le> hi) tms = [] \<Longrightarrow> entries_within lo hi tms xs = []"
proof -
  assume a: "filter (\<lambda>t. lo < t \<and> t \<le> hi) tms = []"
  have "\<And>p. p \<in> set (zip tms xs) \<Longrightarrow> \<not> (lo < fst p \<and> fst p \<le> hi)"
    using a by (metis (mono_tags, lifting) filter_empty_conv set_zip_leftD prod.collapse)
  then show ?thesis
    by (simp add: entries_within_def filter_empty_conv)
qed

lemma entries_within_again:
  assumes "lo' \<le> lo"
  shows "entries_within lo' hi (filter (\<lambda>t. lo < t \<and> t \<le> hi) tms) (entries_within lo hi tms xs)
           = entries_within lo hi tms xs"
  unfolding entries_within_def
proof (induction tms arbitrary: xs)
  case Nil
  show ?case by simp
next
  case (Cons t tms)
  show ?case
  proof (cases xs)
    case Nil
    then show ?thesis by simp
  next
    case (Cons x xs')
    then show ?thesis using Cons.IH [of xs'] assms by auto
  qed
qed

lemma window_of_again:
  assumes "lo' \<le> lo"
  shows "window_of (window_of df lo hi) lo' hi = window_of df lo hi"
proof -
  have f: "\<And>ts. filter (\<lambda>x. lo < x \<and> x \<le> hi \<and> lo' < x \<and> x \<le> hi) ts
              = filter (\<lambda>t. lo < t \<and> t \<le> hi) ts"
    using assms by (intro filter_cong) auto
  have g: "\<And>rows::(int list \<times> int) list.
             filter (\<lambda>x. lo < snd x \<and> snd x \<le> hi \<and> lo' < snd x \<and> snd x \<le> hi) rows
              = filter (\<lambda>r. lo < snd r \<and> snd r \<le> hi) rows"
    using assms by (intro filter_cong) auto
  have t: "time_indices (df_index (window_of df lo hi))
             = filter (\<lambda>t. lo < t \<and> t \<le> hi) (time_indices (df_index df))"
    by (rule time_indices_window_of)
  have c: "df_columns (window_of (window_of df lo hi) lo' hi) = df_columns (window_of df lo hi)"
    by (simp add: window_of_def [of "window_of df lo hi"] t)
       (simp add: window_of_def comp_def entries_within_again [OF assms])
  have i: "df_index (window_of (window_of df lo hi) lo' hi) = df_index (window_of df lo hi)"
    by (cases "df_index df") (simp_all add: window_of_def f g)
  show ?thesis
    using c i by (simp add: dataframe.equality)
qed


lemma window_of_empty:
  assumes "time_indices (df_index (window_of df lo hi)) = []"
  shows "window_of (window_of df lo hi) lo' hi' = window_of df lo hi"
proof -
  have e: "filter (\<lambda>t. lo < t \<and> t \<le> hi) (time_indices (df_index df)) = []"
    using assms by (simp add: time_indices_window_of)
  have c: "df_columns (window_of df lo hi)
             = map (\<lambda>c. c\<lparr>col_cells := []\<rparr>) (df_columns df)"
    by (simp add: window_of_def entries_within_empty [OF e])
  have i: "df_index (window_of (window_of df lo hi) lo' hi') = df_index (window_of df lo hi)"
    using assms
    by (cases "df_index (window_of df lo hi)")
       (simp_all add: window_of_def [of "window_of df lo hi"] time_indices_def)
  have "df_columns (window_of (window_of df lo hi) lo' hi') = df_columns (window_of df lo hi)"
    by (simp add: window_of_def [of "window_of df lo hi"] assms c entries_within_def comp_def)
  then show ?thesis
    using i by (simp add: dataframe.equality)
qed

lemma col_names_window_of:
  "map col_name (df_columns (window_of df lo hi)) = map col_name (df_columns df)"
  by (simp add: window_of_def comp_def)

lemma objcols_window_of:
  "filter (\<lambda>c. col_dtype c = ''object'') (df_columns (window_of df lo hi)) = []
     \<longleftrightarrow> filter (\<lambda>c. col_dtype c = ''object'') (df_columns df) = []"
  by (simp add: window_of_def filter_empty_conv)

lemma get_cutoff_plain:
  assumes "df_index df = Index ts"
    and "distinct (map col_name (df_columns df))"
    and "filter (\<lambda>c. col_dtype c = ''object'') (df_columns df) = []"
  shows "get_cutoff (DataFrame df) (Some 0) False
           = Inr (Scalar (if ts = [] then 0 else last ts))"
  using assms
  by (simp add: get_cutoff_def py_len_def index_len_def index_at_end_def index_last_def)

lemma get_cutoff_multi:
  assumes "df_index df = MultiIndex ns rows" and "2 \<le> length ns"
  shows "get_cutoff (DataFrame df) (Some 0) False
           = Inr (Scalar (if rows = [] then 0 else Max (instance_last rows ` fst ` set rows)))"
proof (cases "rows = []")
  case True
  then show ?thesis
    using assms by (simp add: get_cutoff_def py_len_def index_len_def)
next
  case False
  then show ?thesis
    using assms multiindex_cutoff_scalar [OF False assms(2)]
    by (simp add: get_cutoff_MultiIndex)
qed

lemma instance_last_filter:
  assumes "(k, t) \<in> set rows" and "P (instance_last rows k)"
  shows "instance_last (filter (\<lambda>r. P (snd r)) rows) k = instance_last rows k"
proof -
  have n: "map snd (filter (\<lambda>r. fst r = k) rows) \<noteq> []"
    using assms(1) by (force simp: filter_empty_conv)
  have "map snd (filter (\<lambda>r. fst r = k) (filter (\<lambda>r. P (snd r)) rows))
          = filter P (map snd (filter (\<lambda>r. fst r = k) rows))"
    by (simp add: filter_map comp_def conj_commute)
  then show ?thesis
    using last_filter [OF n, of P] assms(2) by (simp add: instance_last_def)
qed

lemma instance_last_in:
  assumes "(k, t) \<in> set rows"
  shows "(k, instance_last rows k) \<in> set rows"
proof -
  let ?g = "filter (\<lambda>r. fst r = k) rows"
  have n: "?g \<noteq> []"
    using assms by (force simp: filter_empty_conv)
  then have "last ?g \<in> set ?g"
    by (rule last_in_set)
  then have "last ?g \<in> set rows" and "fst (last ?g) = k"
    by auto
  moreover have "instance_last rows k = snd (last ?g)"
    using n by (simp add: instance_last_def last_map)
  ultimately show ?thesis
    by (metis prod.collapse)
qed

lemma Max_instance_last_window:
  assumes "rows \<noteq> []" and "0 < w"
    and "t = Max (instance_last rows ` fst ` set rows)"
    and "rows' = filter (\<lambda>r. t - w < snd r \<and> snd r \<le> t) rows"
  shows "rows' \<noteq> [] \<and> Max (instance_last rows' ` fst ` set rows') = t"
proof -
  let ?P = "\<lambda>x. t - w < x \<and> x \<le> (t::int)"
  have fin: "finite (instance_last rows ` fst ` set rows)"
    by simp
  have ne: "instance_last rows ` fst ` set rows \<noteq> {}"
    using assms(1) by simp
  have "t \<in> instance_last rows ` fst ` set rows"
    unfolding assms(3) using fin ne by (rule Max_in)
  then obtain k u where ku: "(k, u) \<in> set rows" and tk: "instance_last rows k = t"
    by force
  have kt: "(k, t) \<in> set rows"
    using instance_last_in [OF ku] tk by simp
  have Pt: "?P t"
    using assms(2) by simp
  have kt': "(k, t) \<in> set rows'"
    using kt Pt by (simp add: assms(4))
  have l': "instance_last rows' k = t"
    using instance_last_filter [OF ku, of ?P] Pt tk by (simp add: assms(4))
  have mem: "t \<in> instance_last rows' ` fst ` set rows'"
    using kt' l' by force
  have ub: "\<And>y. y \<in> instance_last rows' ` fst ` set rows' \<Longrightarrow> y \<le> t"
  proof -
    fix y
    assume "y \<in> instance_last rows' ` fst ` set rows'"
    then obtain k' u' where "(k', u') \<in> set rows'" and y: "y = instance_last rows' k'"
      by force
    then have "(k', y) \<in> set rows'"
      using instance_last_in [of k' u' rows'] by simp
    then show "y \<le> t"
      by (simp add: assms(4))
  qed
  have "Max (instance_last rows' ` fst ` set rows') = t"
    using mem ub by (intro Max_eqI) auto
  then show ?thesis
    using kt' by auto
qed


lemma sliceable_window_of:
  "sliceable (DataFrame df) \<Longrightarrow> sliceable (DataFrame (window_of df lo hi))"
  by (cases "df_index df")
     (simp_all add: sliceable_def window_of_def filter_empty_conv comp_def)

lemma sliceable_cutoff:
  assumes "sliceable (DataFrame df)"
  shows "\<exists>t. get_cutoff (DataFrame df) (Some 0) False = Inr (Scalar t)"
proof (cases "df_index df")
  case (Index ts)
  then show ?thesis
    using assms get_cutoff_plain [OF Index] by (simp add: sliceable_def)
next
  case (MultiIndex ns rows)
  then show ?thesis
    using assms get_cutoff_multi [OF MultiIndex] by (simp add: sliceable_def)
qed

lemma cutoff_of_window:
  assumes "sliceable (DataFrame df)" and "0 < w1" and "w1 \<le> w2"
    and "get_cutoff (DataFrame df) (Some 0) False = Inr (Scalar t)"
  shows "\<exists>t'. get_cutoff (DataFrame (window_of df (t - w1) t)) (Some 0) False = Inr (Scalar t')
            \<and> window_of (window_of df (t - w1) t) (t' - w2) t' = window_of df (t - w1) t"
proof (cases "df_index df")
  case (Index ts)
  let ?P = "\<lambda>x. t - w1 < x \<and> x \<le> t"
  let ?W = "window_of df (t - w1) t"
  have no: "filter (\<lambda>c. col_dtype c = ''object'') (df_columns df) = []"
    and di: "distinct (map col_name (df_columns df))"
    using assms(1) Index by (simp_all add: sliceable_def)
  have t: "t = (if ts = [] then 0 else last ts)"
    using assms(4) get_cutoff_plain [OF Index di no] by simp
  have iW: "df_index ?W = Index (filter ?P ts)"
    using Index by (simp add: window_of_def)
  have cW: "get_cutoff (DataFrame ?W) (Some 0) False
              = Inr (Scalar (if filter ?P ts = [] then 0 else last (filter ?P ts)))"
    using get_cutoff_plain [OF iW] no di by (simp add: objcols_window_of col_names_window_of)
  show ?thesis
  proof (cases "ts = []")
    case True
    then have "time_indices (df_index ?W) = []"
      by (simp add: iW time_indices_def)
    then show ?thesis
      using cW True by (simp add: window_of_empty)
  next
    case False
    then have "?P (last ts)"
      using t assms(2) by simp
    then have l: "last (filter ?P ts) = t"
      using t False last_filter [OF False, of ?P] by simp
    have "\<exists>x \<in> set ts. ?P x"
      using \<open>?P (last ts)\<close> last_in_set [OF False] by blast
    then have "filter ?P ts \<noteq> []"
      by (simp add: filter_empty_conv)
    then show ?thesis
      using cW l assms(3) by (simp add: window_of_again)
  qed
next
  case (MultiIndex ns rows)
  let ?P = "\<lambda>r. t - w1 < snd r \<and> snd r \<le> t"
  let ?W = "window_of df (t - w1) t"
  have lv: "2 \<le> length ns"
    using assms(1) MultiIndex by (simp add: sliceable_def)
  have t: "t = (if rows = [] then 0 else Max (instance_last rows ` fst ` set rows))"
    using assms(4) get_cutoff_multi [OF MultiIndex lv] by simp
  have iW: "df_index ?W = MultiIndex ns (filter ?P rows)"
    using MultiIndex by (simp add: window_of_def)
  have cW: "get_cutoff (DataFrame ?W) (Some 0) False
              = Inr (Scalar (if filter ?P rows = [] then 0
                             else Max (instance_last (filter ?P rows) ` fst ` set (filter ?P rows))))"
    by (rule get_cutoff_multi [OF iW lv])
  show ?thesis
  proof (cases "rows = []")
    case True
    then have "time_indices (df_index ?W) = []"
      by (simp add: iW time_indices_def)
    then show ?thesis
      using cW True by (simp add: window_of_empty)
  next
    case False
    have "filter ?P rows \<noteq> []
            \<and> Max (instance_last (filter ?P rows) ` fst ` set (filter ?P rows)) = t"
      using Max_instance_last_window [OF False assms(2), of t "filter ?P rows"] t False
      by simp
    then show ?thesis
      using cW assms(3) by (simp add: window_of_again)
  qed
qed

lemma sliceable_cutoff_mem:
  assumes "sliceable (DataFrame df)"
    and "get_cutoff (DataFrame df) (Some 0) False = Inr (Scalar t)"
    and "index_len (df_index df) \<noteq> 0"
  shows "t \<in> set (time_indices (df_index df))"
proof (cases "df_index df")
  case (Index ts)
  then have ne: "ts \<noteq> []"
    using assms(3) by (simp add: index_len_def)
  have "t = last ts"
    using assms(1,2) Index ne get_cutoff_plain [OF Index] by (simp add: sliceable_def)
  then show ?thesis
    using Index ne by (simp add: time_indices_def)
next
  case (MultiIndex ns rows)
  then have ne: "rows \<noteq> []"
    using assms(3) by (simp add: index_len_def)
  have "t = Max (instance_last rows ` fst ` set rows)"
    using assms(1,2) MultiIndex ne get_cutoff_multi [OF MultiIndex]
    by (simp add: sliceable_def)
  moreover have "Max (instance_last rows ` fst ` set rows) \<in> instance_last rows ` fst ` set rows"
    using ne by (intro Max_in) simp_all
  ultimately obtain k u where "(k, u) \<in> set rows" and "instance_last rows k = t"
    by force
  then have "(k, t) \<in> set rows"
    using instance_last_in [of k u rows] by simp
  then have "t \<in> snd ` set rows"
    by force
  then show ?thesis
    using MultiIndex by (simp add: time_indices_def)
qed

lemma window_bounds_fit:
  assumes "sliceable (DataFrame df)"
    and "get_cutoff (DataFrame df) (Some 0) False = Inr (Scalar t)"
    and "\<And>u. u \<in> set (time_indices (df_index df)) \<Longrightarrow> int64 u \<and> int64 (u - w2)"
    and "0 < w" and "w \<le> w2" and "int64 w2"
  shows "index_len (df_index df) = 0
         \<or> (int64 w \<and> int64 0 \<and> int64 (t - w - 0) \<and> int64 (t - 0))"
proof (cases "index_len (df_index df) = 0")
  case True
  then show ?thesis by simp
next
  case False
  have "int64 t \<and> int64 (t - w2)"
    using assms(3) sliceable_cutoff_mem [OF assms(1,2) False] by blast
  then show ?thesis
    using assms(4,5,6) by (simp add: int64_def)
qed

lemma window_ndarray_again:
  assumes "shape a = n # dims" and "0 < w1" and "w1 \<le> w2"
    and "\<forall>w l k. window_end_arg C w l k \<le> 0"
  shows "\<exists>r. window_ndarray C a w1 0 = Inr (NDArray r) \<and> shape r \<noteq> []
            \<and> window_ndarray C r w2 0 = Inr (NDArray r)"
proof -
  let ?m = "min (nat w1) n"
  let ?r = "\<lparr>shape = ?m # dims,
             data = take (?m * prod_list dims) (drop ((n - ?m) * prod_list dims) (data a))\<rparr>"
  have w2: "0 < w2"
    using assms(2,3) by simp
  have e1: "window_end_arg C w1 0 n \<le> 0" and e2: "window_end_arg C w2 0 ?m \<le> 0"
    using assms(4) by simp_all
  have r: "window_ndarray C a w1 0 = Inr (NDArray ?r)"
    by (rule window_ndarray_trailing [OF assms(1,2) e1])
  have s: "shape ?r = ?m # dims"
    by simp
  have m: "min (nat w2) ?m = ?m"
    using assms(3) by simp
  have "window_ndarray C ?r w2 0 = Inr (NDArray ?r)"
    using window_ndarray_trailing [OF s w2 e2] by (simp add: m)
  then show ?thesis
    using r by (intro exI [of _ ?r]) simp
qed

text \<open>
  C8. Applying to a window a second window that is at least as long should give the first
  window back. On a numpy array the code does not do that when the first window length
  is 0: \<^verbatim>\<open>window_start\<close> is then \<^verbatim>\<open>max(0, -n) = 0\<close> and the slice
  \<^verbatim>\<open>obj[0:]\<close> is the whole array, not an empty one, so that the window of length 0
  of \<open>[1, 2, 3, 4, 5]\<close> is the array itself, and the window of length 2 of that is
  \<open>[4, 5]\<close>. This holds for all collaborators that accept the array and leave it
  unchanged, and for any cut-off argument that is not positive.
\<close>

theorem get_window_zero_length_not_idempotent:
  assumes "\<forall>x. fst (check_is_scitype C x)"
    and "\<forall>x to_type. convert_to C x to_type = Inr x"
    and "\<forall>w l n. window_end_arg C w l n \<le> 0"
  shows "get_window C (NDArray \<lparr>shape = [5], data = [1, 2, 3, 4, 5]\<rparr>) (Some 0) 0
           = Inr (NDArray \<lparr>shape = [5], data = [1, 2, 3, 4, 5]\<rparr>)
       \<and> get_window C (NDArray \<lparr>shape = [5], data = [1, 2, 3, 4, 5]\<rparr>) (Some 2) 0
           = Inr (NDArray \<lparr>shape = [2], data = [4, 5]\<rparr>)
       \<and> get_window C (NDArray \<lparr>shape = [5], data = [1, 2, 3, 4, 5]\<rparr>) (Some 2) 0
           \<noteq> get_window C (NDArray \<lparr>shape = [5], data = [1, 2, 3, 4, 5]\<rparr>) (Some 0) 0"
proof -
  let ?a = "\<lparr>shape = [5], data = [1, 2, 3, 4, 5]\<rparr>"
  obtain m where m: "check_is_scitype C (NDArray ?a) = (True, m)"
    using assms(1) [rule_format, of "NDArray ?a"]
    by (cases "check_is_scitype C (NDArray ?a)") simp
  have g: "\<And>w. get_window C (NDArray ?a) (Some w) 0 = window_ndarray C ?a w 0"
    using m assms(2) by (simp add: get_window_def)
  have e: "max 0 (window_end_arg C w 0 5) = 0" for w
    using assms(3) [rule_format, of w 0 5] by simp
  show ?thesis
    by (simp add: g window_ndarray_def py_len_def e ndarray_slice_def slice_range_def
          slice_bound_def)
qed

theorem get_window_zero_length_not_idempotent_witness:
  "(\<forall>x. fst (check_is_scitype plain_collaborators x))
   \<and> (\<forall>x to_type. convert_to plain_collaborators x to_type = Inr x)
   \<and> (\<forall>w l n. window_end_arg plain_collaborators w l n \<le> 0)
   \<and> get_window plain_collaborators (NDArray \<lparr>shape = [5], data = [1, 2, 3, 4, 5]\<rparr>) (Some 0) 0
       = Inr (NDArray \<lparr>shape = [5], data = [1, 2, 3, 4, 5]\<rparr>)
   \<and> get_window plain_collaborators (NDArray \<lparr>shape = [5], data = [1, 2, 3, 4, 5]\<rparr>) (Some 2) 0
       = Inr (NDArray \<lparr>shape = [2], data = [4, 5]\<rparr>)"
proof -
  have h1: "\<forall>x. fst (check_is_scitype plain_collaborators x)"
    by (simp add: plain_collaborators_def)
  have h2: "\<forall>x to_type. convert_to plain_collaborators x to_type = Inr x"
    by (simp add: plain_collaborators_def)
  have h3: "\<forall>w l n. window_end_arg plain_collaborators w l n \<le> 0"
    by (simp add: plain_collaborators_def)
  show ?thesis
    using h1 h2 h3 get_window_zero_length_not_idempotent [OF h1 h2 h3]
    by simp
qed

text \<open>
  For positive window lengths the property holds on every directly sliceable container
  (for a table: when the labels and the bounds of the longer window fit in 64 bits),
  and a window length of \<^verbatim>\<open>None\<close> returns the container itself.
\<close>

theorem get_window_idempotent_positive:
  assumes "\<forall>x. fst (check_is_scitype C x)"
    and "\<forall>x to_type. convert_to C x to_type = Inr x"
    and "\<forall>w l n. window_end_arg C w l n \<le> 0"
    and "sliceable obj" and "0 < w1" and "w1 \<le> w2"
    and "int64 w2"
    and "\<And>df u. obj = DataFrame df \<Longrightarrow> u \<in> set (time_indices (df_index df)) \<Longrightarrow>
           int64 u \<and> int64 (u - w2)"
  shows "(\<exists>r. get_window C obj (Some w1) 0 = Inr r \<and> get_window C r (Some w2) 0 = Inr r)
       \<and> get_window C obj None lag = Inr obj"
proof -
  have v: "\<exists>m. check_is_scitype C x = (True, m)" for x
    using assms(1) [rule_format, of x] by (cases "check_is_scitype C x") simp
  have "\<exists>r. get_window C obj (Some w1) 0 = Inr r \<and> get_window C r (Some w2) 0 = Inr r"
  proof (cases obj)
    case (NDArray a)
    then obtain n dims where sh: "shape a = n # dims"
      using assms(4) by (auto simp: sliceable_def neq_Nil_conv)
    obtain r where r: "window_ndarray C a w1 0 = Inr (NDArray r)"
      and w: "window_ndarray C r w2 0 = Inr (NDArray r)"
      using window_ndarray_again [OF sh assms(5,6,3)] by blast
    obtain m m' where "check_is_scitype C (NDArray a) = (True, m)"
      and "check_is_scitype C (NDArray r) = (True, m')"
      using v by blast
    then have "get_window C (NDArray a) (Some w1) 0 = Inr (NDArray r)"
      and "get_window C (NDArray r) (Some w2) 0 = Inr (NDArray r)"
      using assms(2) r w by (simp_all add: get_window_def)
    then show ?thesis
      using NDArray by blast
  next
    case (DataFrame df)
    then have sl: "sliceable (DataFrame df)"
      using assms(4) by simp
    have fit: "\<And>u. u \<in> set (time_indices (df_index df)) \<Longrightarrow> int64 u \<and> int64 (u - w2)"
      using assms(8) [OF DataFrame] by blast
    obtain t where t: "get_cutoff (DataFrame df) (Some 0) False = Inr (Scalar t)"
      using sliceable_cutoff [OF sl] by blast
    let ?W = "window_of df (t - w1) t"
    obtain t' where t': "get_cutoff (DataFrame ?W) (Some 0) False = Inr (Scalar t')"
      and again: "window_of ?W (t' - w2) t' = ?W"
      using cutoff_of_window [OF sl assms(5,6) t] by blast
    have slW: "sliceable (DataFrame ?W)"
      by (rule sliceable_window_of [OF sl])
    have fitW: "\<And>u. u \<in> set (time_indices (df_index ?W)) \<Longrightarrow> int64 u \<and> int64 (u - w2)"
      using fit by (simp add: time_indices_window_of)
    have w2: "0 < w2"
      using assms(5,6) by simp
    have b1: "index_len (df_index df) = 0
              \<or> (int64 w1 \<and> int64 0 \<and> int64 (t - w1 - 0) \<and> int64 (t - 0))"
      by (rule window_bounds_fit [OF sl t fit assms(5,6,7)])
    have b2: "index_len (df_index ?W) = 0
              \<or> (int64 w2 \<and> int64 0 \<and> int64 (t' - w2 - 0) \<and> int64 (t' - 0))"
      by (rule window_bounds_fit [OF slW t' fitW w2 order_refl assms(7)])
    obtain m m' where "check_is_scitype C (DataFrame df) = (True, m)"
      and "check_is_scitype C (DataFrame ?W) = (True, m')"
      using v by blast
    then have "get_window C (DataFrame df) (Some w1) 0 = Inr (DataFrame ?W)"
      and "get_window C (DataFrame ?W) (Some w2) 0 = Inr (DataFrame ?W)"
      using assms(2) window_dataframe_eq [OF t b1, of C] window_dataframe_eq [OF t' b2, of C]
        again
      by (simp_all add: get_window_def)
    then show ?thesis
      using DataFrame by blast
  qed (use assms(4) in \<open>simp_all add: sliceable_def\<close>)
  then show ?thesis
    by (simp add: get_window_def)
qed

lemma get_window_idempotent_positive_example:
  "get_window plain_collaborators
     (DataFrame \<lparr>df_index = MultiIndex [''instances'', ''timepoints'']
                    [([0], 0), ([0], 1), ([0], 2), ([0], 3), ([1], 0), ([1], 1)],
                 df_columns = [\<lparr>col_name = ''y'', col_dtype = ''int64'',
                                col_cells = [NumCell 1, NumCell 2, NumCell 3, NumCell 4,
                                             NumCell 5, NumCell 6]\<rparr>]\<rparr>) (Some 2) 0
     = Inr (DataFrame \<lparr>df_index = MultiIndex [''instances'', ''timepoints'']
                           [([0], 2), ([0], 3)],
                        df_columns = [\<lparr>col_name = ''y'', col_dtype = ''int64'',
                                       col_cells = [NumCell 3, NumCell 4]\<rparr>]\<rparr>)
   \<and> get_window plain_collaborators
       (DataFrame \<lparr>df_index = MultiIndex [''instances'', ''timepoints'']
                           [([0], 2), ([0], 3)],
                        df_columns = [\<lparr>col_name = ''y'', col_dtype = ''int64'',
                                       col_cells = [NumCell 3, NumCell 4]\<rparr>]\<rparr>) (Some 3) 0
     = Inr (DataFrame \<lparr>df_index = MultiIndex [''instances'', ''timepoints'']
                           [([0], 2), ([0], 3)],
                        df_columns = [\<lparr>col_name = ''y'', col_dtype = ''int64'',
                                       col_cells = [NumCell 3, NumCell 4]\<rparr>]\<rparr>)"
  by (simp add: get_window_def window_dataframe_def get_cutoff_def py_len_def index_len_def
        multiindex_cutoff_def loc_times_def index_at_end_def index_last_def bind_err_def
        py_max_def plain_collaborators_def mtype_of_def iloc_mask_def index_mask_def
        mask_select_def time_indices_def label_sub_def int64_def wrap64_def Let_def)

end
